theory Spec2Isabelle
  imports Main "HOL-Library.Word"
begin

unbundle bit_operations_syntax

section \<open>Machine model\<close>

text \<open>
  The allocator of \<^verbatim>\<open>kheap.c\<close> works on raw addresses. The masks the source uses
  (\<^verbatim>\<open>0xFFFFF000\<close>, \<^verbatim>\<open>0xFFF\<close>, \<^verbatim>\<open>0x1000\<close>) are those of a 32-bit address space, so
  \<^verbatim>\<open>size_t\<close> and pointers are 32-bit words: addition and subtraction wrap, comparisons
  are unsigned. \<^verbatim>\<open>u8int\<close> is an 8-bit word.

  Memory is a store from addresses to 32-bit cells; every struct field the code reads or
  writes is one cell at the address of the struct plus the field's offset. The
  \<^verbatim>\<open>struct heap\<close> itself (the three bounds and the free list) is a record beside
  the store, as the code reaches it only through \<^verbatim>\<open>heap->...\<close>.
\<close>

type_synonym addr = "32 word"
type_synonym u8int = "8 word"
type_synonym memory = "addr \<Rightarrow> 32 word"

text \<open>
  Modelled from the spec: \<^verbatim>\<open>kheap.h\<close> and \<^verbatim>\<open>common.h\<close> are not among the sources, so
  the constants and the struct layout they declare are fixed here, the specification
  giving no values. The page constants are the ones the source writes out as literals
  next to \<^verbatim>\<open>PAGE_SIZE\<close> and \<^verbatim>\<open>PAGE_MASK\<close>. The header holds \<^verbatim>\<open>magic\<close>, \<^verbatim>\<open>size\<close> and
  \<^verbatim>\<open>allocated\<close> (three cells, 12 bytes), the footer \<^verbatim>\<open>magic\<close> and the back-reference
  \<^verbatim>\<open>header\<close> (two cells, 8 bytes); a pointer has 4 bytes. The magic value, the capacity
  of the free list and the size of \<^verbatim>\<open>struct sorted_array\<close> are those of a usual 32-bit
  build. The theorems about all heaps use none of these values but the page constants;
  the example runs use them, with sizes that are multiples of four, so that no two
  fields overlap in part.
\<close>

definition PAGE_SIZE :: addr where
  "PAGE_SIZE = 0x1000"

definition PAGE_MASK :: addr where
  "PAGE_MASK = 0xFFFFF000"

definition HEAP_MAGIC :: "32 word" where
  "HEAP_MAGIC = 0x123890AB"

definition HEAP_FREE_LIST_SIZE :: addr where
  "HEAP_FREE_LIST_SIZE = 0x20000"

definition sizeof_header :: addr where
  "sizeof_header = 12"

definition sizeof_footer :: addr where
  "sizeof_footer = 8"

definition sizeof_pointer :: addr where
  "sizeof_pointer = 4"

definition sizeof_sorted_array :: addr where
  "sizeof_sorted_array = 16"

definition header_magic :: "memory \<Rightarrow> addr \<Rightarrow> 32 word" where
  "header_magic m h = m h"

definition header_size :: "memory \<Rightarrow> addr \<Rightarrow> 32 word" where
  "header_size m h = m (h + 4)"

definition header_allocated :: "memory \<Rightarrow> addr \<Rightarrow> 32 word" where
  "header_allocated m h = m (h + 8)"

definition footer_magic :: "memory \<Rightarrow> addr \<Rightarrow> 32 word" where
  "footer_magic m f = m f"

definition footer_header :: "memory \<Rightarrow> addr \<Rightarrow> addr" where
  "footer_header m f = m (f + 4)"

definition set_header_magic :: "addr \<Rightarrow> 32 word \<Rightarrow> memory \<Rightarrow> memory" where
  "set_header_magic h v m = m(h := v)"

definition set_header_size :: "addr \<Rightarrow> 32 word \<Rightarrow> memory \<Rightarrow> memory" where
  "set_header_size h v m = m(h + 4 := v)"

definition set_header_allocated :: "addr \<Rightarrow> 32 word \<Rightarrow> memory \<Rightarrow> memory" where
  "set_header_allocated h v m = m(h + 8 := v)"

definition set_footer_magic :: "addr \<Rightarrow> 32 word \<Rightarrow> memory \<Rightarrow> memory" where
  "set_footer_magic f v m = m(f := v)"

definition set_footer_header :: "addr \<Rightarrow> addr \<Rightarrow> memory \<Rightarrow> memory" where
  "set_footer_header f v m = m(f + 4 := v)"

record heap =
  start_address :: addr
  end_address :: addr
  max_address :: addr
  free_list :: "addr list"

section \<open>The sorted array of free blocks\<close>

text \<open>\<^verbatim>\<open>header_less_than\<close>: \<open>a < b\<close> iff the size in \<open>a\<close>'s header is less than the size
  in \<open>b\<close>'s.\<close>

definition header_less_than :: "memory \<Rightarrow> addr \<Rightarrow> addr \<Rightarrow> bool" where
  "header_less_than m a b = (header_size m a < header_size m b)"

text \<open>
  Modelled from the spec: the sorted array (\<^verbatim>\<open>sorted_array_insert\<close>,
  \<^verbatim>\<open>sorted_array_remove\<close>, \<^verbatim>\<open>sorted_array_lookup\<close>) is not among the sources. Insertion
  keeps the ascending order of the comparator: the item goes before the first entry
  that does not precede it. Removal deletes the entry at an index and keeps the order of
  the others. Lookup returns the entry at an index. The entries are the list itself, its
  length is the field \<^verbatim>\<open>size\<close>; the fixed capacity, beyond which the spec makes
  insertion a fatal error, is not part of the model.
\<close>

definition sorted_array_insert :: "addr \<Rightarrow> addr list \<Rightarrow> memory \<Rightarrow> addr list" where
  "sorted_array_insert item xs m =
     takeWhile (\<lambda>e. header_less_than m e item) xs @ item #
     dropWhile (\<lambda>e. header_less_than m e item) xs"

definition sorted_array_remove :: "nat \<Rightarrow> addr list \<Rightarrow> addr list" where
  "sorted_array_remove i xs = take i xs @ drop (Suc i) xs"

definition sorted_array_lookup :: "nat \<Rightarrow> addr list \<Rightarrow> addr" where
  "sorted_array_lookup i xs = xs ! i"

section \<open>Alignment and resizing\<close>

text \<open>\<^verbatim>\<open>align\<close>: the aligned address at or before the given one.\<close>

definition align :: "addr \<Rightarrow> addr" where
  "align p = p AND PAGE_MASK"

text \<open>
  \<^verbatim>\<open>heap_resize\<close> returns \<open>-1\<close> on error and \<open>0\<close> on success, with the heap as it
  leaves it. In the expanding branch the test \<^verbatim>\<open>new_size & 0xFFFFF000 != 0\<close> parses as
  \<^verbatim>\<open>new_size & (0xFFFFF000 != 0)\<close>, that is \<^verbatim>\<open>new_size & 1\<close>.
\<close>

definition heap_resize :: "addr \<Rightarrow> heap \<Rightarrow> int \<times> heap" where
  "heap_resize new_size heap =
     (let new_size1 = (if align new_size \<noteq> new_size then align new_size + PAGE_SIZE
                       else new_size);
          cur = end_address heap - start_address heap
      in if new_size1 < cur then
           (let new_size2 = (if new_size1 AND 0x1000 \<noteq> 0
                             then (new_size1 AND 0x1000) + 0x1000 else new_size1)
            in (0, heap\<lparr>end_address := start_address heap + new_size2\<rparr>))
         else if cur < new_size1 then
           (let new_size2 = (if new_size1 AND 1 \<noteq> 0
                             then (new_size1 AND 0xFFFFF000) + 0x1000 else new_size1)
            in if max_address heap < start_address heap + new_size2 then (-1, heap)
               else (0, heap\<lparr>end_address := start_address heap + new_size2\<rparr>))
         else (0, heap\<lparr>end_address := start_address heap + new_size1\<rparr>))"

text \<open>
  The page rounding in the words of the specification: the least multiple of the page
  size at or above \<open>n\<close>, and the greatest one at or below, on unbounded naturals.
\<close>

definition page_round_up :: "nat \<Rightarrow> nat" where
  "page_round_up n = ((n + 4095) div 4096) * 4096"

definition page_round_down :: "nat \<Rightarrow> nat" where
  "page_round_down n = (n div 4096) * 4096"

section \<open>Searching the free list\<close>

text \<open>
  The loop of \<^verbatim>\<open>find_smallest_hole\<close>, from index \<open>i\<close> over the entries that remain.
  \<^verbatim>\<open>offset\<close> and \<^verbatim>\<open>hole_size\<close> are \<^verbatim>\<open>size_t\<close>: the subtraction wraps.
\<close>

fun find_smallest_hole_loop :: "addr \<Rightarrow> u8int \<Rightarrow> memory \<Rightarrow> nat \<Rightarrow> addr list \<Rightarrow> int" where
  "find_smallest_hole_loop sz page_align m i [] = -1"
| "find_smallest_hole_loop sz page_align m i (header # rest) =
     (let loc = header;
          offset = (if page_align \<noteq> 0
                    then PAGE_SIZE - (loc + sizeof_header) mod PAGE_SIZE else 0);
          hole_size = header_size m header - offset
      in if sz \<le> hole_size then int i
         else find_smallest_hole_loop sz page_align m (Suc i) rest)"

definition find_smallest_hole :: "addr \<Rightarrow> u8int \<Rightarrow> heap \<Rightarrow> memory \<Rightarrow> int" where
  "find_smallest_hole sz page_align heap m =
     find_smallest_hole_loop sz page_align m 0 (free_list heap)"

section \<open>Creating holes and the heap\<close>

text \<open>
  \<^verbatim>\<open>add_hole\<close>: the footer pointer is \<^verbatim>\<open>(struct footer *) end - sizeof(f)\<close>, pointer
  arithmetic on \<^verbatim>\<open>struct footer *\<close> with the size of a pointer: \<open>sizeof_pointer\<close>
  footers below \<open>end\<close>.
\<close>

definition add_hole :: "addr \<Rightarrow> addr \<Rightarrow> heap \<Rightarrow> memory \<Rightarrow> heap \<times> memory" where
  "add_hole start end heap m =
     (let h = start;
          m1 = set_header_magic h HEAP_MAGIC m;
          m2 = set_header_size h (end - start) m1;
          m3 = set_header_allocated h 0 m2;
          f = end - sizeof_pointer * sizeof_footer;
          m4 = set_footer_magic f HEAP_MAGIC m3;
          m5 = set_footer_header f h m4
      in (heap\<lparr>free_list := sorted_array_insert h (free_list heap) m5\<rparr>, m5))"

definition heap_create :: "addr \<Rightarrow> addr \<Rightarrow> addr \<Rightarrow> memory \<Rightarrow> heap \<times> memory" where
  "heap_create start end maxi m =
     (let start1 = start + (sizeof_sorted_array + sizeof_pointer * HEAP_FREE_LIST_SIZE);
          start2 = (if align start1 \<noteq> start1 then align start1 + PAGE_SIZE else start1);
          heap = \<lparr>start_address = start2, end_address = end, max_address = maxi,
                  free_list = []\<rparr>
      in add_hole start2 end heap m)"

section \<open>Allocation\<close>

text \<open>
  The loop of \<^verbatim>\<open>kalloc_heap\<close> that looks for the last header in memory. Its body never
  changes \<^verbatim>\<open>iterator_result\<close>, so the loop may run forever: not returning is \<open>None\<close>.
\<close>

partial_function (option) last_header_loop ::
  "addr list \<Rightarrow> addr \<Rightarrow> addr \<Rightarrow> addr \<Rightarrow> (addr \<times> addr) option" where
  "last_header_loop fl iterator_result index val =
     (if unat iterator_result < length fl then
        (let tmp = sorted_array_lookup (unat iterator_result) fl
         in if val < tmp then last_header_loop fl iterator_result iterator_result tmp
            else last_header_loop fl iterator_result index val)
      else Some (index, val))"

text \<open>
  \<^verbatim>\<open>kalloc_heap\<close> once a hole is found at \<open>iterator_result\<close>, in the three steps of the
  code. First the sizes: a remainder too small for a header and a footer is given to the
  allocation. The result is \<^verbatim>\<open>(size, new_size)\<close>.
\<close>

definition kalloc_heap_sizes :: "addr \<Rightarrow> addr \<Rightarrow> addr \<times> addr" where
  "kalloc_heap_sizes size0 old_hole_size =
     (let new_size0 = size0 + sizeof_header + sizeof_footer
      in if old_hole_size - new_size0 < sizeof_header + sizeof_footer
         then (size0 + old_hole_size - new_size0, old_hole_size)
         else (size0, new_size0))"

text \<open>
  Then the page alignment: under the guard \<^verbatim>\<open>page_align && old_hole_loc&0xFFFFF000\<close> a
  leading hole is written in place of the old header and the chunk moves to
  \<^verbatim>\<open>new_loc\<close>; otherwise the entry of the hole is removed from the free list. The result
  is \<^verbatim>\<open>old_hole_loc\<close>, \<^verbatim>\<open>old_hole_size\<close>, the free list and the memory after this step.
\<close>

definition kalloc_heap_align ::
  "nat \<Rightarrow> u8int \<Rightarrow> heap \<Rightarrow> memory \<Rightarrow> addr \<times> addr \<times> addr list \<times> memory" where
  "kalloc_heap_align iterator_result page_align heap m =
     (let old_hole_header = sorted_array_lookup iterator_result (free_list heap);
          old_hole_loc = old_hole_header;
          old_hole_size = header_size m old_hole_header
      in if page_align \<noteq> 0 \<and> old_hole_loc AND 0xFFFFF000 \<noteq> 0 then
           (let new_loc = old_hole_loc + PAGE_SIZE - (old_hole_loc AND 0xFFF) - sizeof_header;
                hole_header = old_hole_loc;
                ma = set_header_size hole_header
                       (PAGE_SIZE - (old_hole_loc AND 0xFFF) - sizeof_header) m;
                mb = set_header_magic hole_header HEAP_MAGIC ma;
                mc = set_header_allocated hole_header 0 mb;
                hole_foot = new_loc - sizeof_footer;
                md = set_footer_magic hole_foot HEAP_MAGIC mc;
                me = set_footer_header hole_foot hole_header md
            in (new_loc, old_hole_size - header_size me hole_header, free_list heap, me))
         else (old_hole_loc, old_hole_size,
               sorted_array_remove iterator_result (free_list heap), m))"

text \<open>
  Last the chunk: its header and footer are written at \<^verbatim>\<open>old_hole_loc\<close>, a hole is made
  of what remains, and the address past the chunk header is returned.
\<close>

definition kalloc_heap_chunk ::
  "addr \<Rightarrow> addr \<Rightarrow> addr \<Rightarrow> addr \<Rightarrow> addr list \<Rightarrow> heap \<Rightarrow> memory
     \<Rightarrow> addr \<times> heap \<times> memory" where
  "kalloc_heap_chunk sz new_size old_hole_loc old_hole_size fl heap m =
     (let chunk_header = old_hole_loc;
          m1 = set_header_magic chunk_header HEAP_MAGIC m;
          m2 = set_header_allocated chunk_header 1 m1;
          m3 = set_header_size chunk_header new_size m2;
          chunk_footer = old_hole_loc + sizeof_header + sz;
          m4 = set_footer_magic chunk_footer HEAP_MAGIC m3;
          m5 = set_footer_header chunk_footer chunk_header m4
      in if 0 < old_hole_size - new_size then
           (let hole_header = old_hole_loc + sizeof_header + sz + sizeof_footer;
                ma = set_header_magic hole_header HEAP_MAGIC m5;
                mb = set_header_allocated hole_header 0 ma;
                mc = set_header_size hole_header (old_hole_size - new_size) mb;
                hole_footer = hole_header + old_hole_size - new_size - sizeof_footer;
                md = (if hole_footer < end_address heap
                      then set_footer_header hole_footer hole_header
                             (set_footer_magic hole_footer HEAP_MAGIC mc)
                      else mc)
            in (chunk_header + sizeof_header,
                heap\<lparr>free_list := sorted_array_insert hole_header fl md\<rparr>, md))
         else (chunk_header + sizeof_header, heap\<lparr>free_list := fl\<rparr>, m5))"

definition kalloc_heap_found ::
  "nat \<Rightarrow> addr \<Rightarrow> u8int \<Rightarrow> heap \<Rightarrow> memory \<Rightarrow> addr \<times> heap \<times> memory" where
  "kalloc_heap_found iterator_result size0 page_align heap m =
     (let old_hole_header = sorted_array_lookup iterator_result (free_list heap);
          old_hole_size = header_size m old_hole_header;
          sizes = kalloc_heap_sizes size0 old_hole_size;
          aligned = kalloc_heap_align iterator_result page_align heap m
      in kalloc_heap_chunk (fst sizes) (snd sizes) (fst aligned) (fst (snd aligned))
           (fst (snd (snd aligned))) heap (snd (snd (snd aligned))))"

text \<open>
  \<^verbatim>\<open>kalloc_heap\<close> after a successful resize and the loop: a new hole when no header was
  found (\<open>index = -1\<close>), else the header at \<open>index\<close> grows by the added length.
\<close>

definition kalloc_heap_extend ::
  "addr \<Rightarrow> addr \<Rightarrow> addr \<Rightarrow> addr \<Rightarrow> heap \<Rightarrow> memory \<Rightarrow> heap \<times> memory" where
  "kalloc_heap_extend index old_length old_end_address new_length heap m =
     (if index = -1 then
        add_hole old_end_address
          (old_end_address + (new_length - old_length) - sizeof_footer) heap m
      else
        (let new_header = sorted_array_lookup (unat index) (free_list heap);
             m1 = set_header_size new_header
                    (header_size m new_header + (new_length - old_length)) m;
             new_footer = new_header + header_size m1 new_header - sizeof_footer;
             m2 = set_footer_magic new_footer HEAP_MAGIC m1;
             m3 = set_footer_header new_footer new_header m2
         in (heap, m3)))"

text \<open>
  \<^verbatim>\<open>kalloc_heap\<close>. The result is \<open>None\<close> when the call does not return. A call that
  returns gives the pointer, or no pointer for the bare \<^verbatim>\<open>return;\<close> after a failed
  resize, with the heap and the memory as the call leaves them.
\<close>

partial_function (option) kalloc_heap ::
  "addr \<Rightarrow> u8int \<Rightarrow> heap \<Rightarrow> memory \<Rightarrow> (addr option \<times> heap \<times> memory) option" where
  "kalloc_heap sz page_align heap m =
     (let new_size = sz + sizeof_header + sizeof_footer;
          iterator_result = find_smallest_hole new_size page_align heap m
      in if iterator_result = -1 then
           (let old_length = end_address heap - start_address heap;
                old_end_address = end_address heap;
                resized = heap_resize (old_length + new_size) heap;
                heap1 = snd resized
            in if fst resized = -1 then Some (None, heap1, m)
               else
                 (let new_length = end_address heap1 - start_address heap1
                  in Option.bind (last_header_loop (free_list heap1) 0 (-1) 0)
                       (\<lambda>(index, val).
                          (let extended = kalloc_heap_extend index old_length
                                            old_end_address new_length heap1 m
                           in kalloc_heap sz page_align (fst extended) (snd extended)))))
         else
           (let found = kalloc_heap_found (nat iterator_result) sz page_align heap m
            in Some (Some (fst found), snd found)))"

section \<open>Deallocation\<close>

text \<open>The search loops of \<^verbatim>\<open>kfree_heap\<close>: the first index that holds \<open>x\<close>, or the
  size of the list.\<close>

fun find_header :: "addr \<Rightarrow> addr list \<Rightarrow> nat" where
  "find_header x [] = 0"
| "find_header x (e # es) = (if e \<noteq> x then Suc (find_header x es) else 0)"

text \<open>
  The end of \<^verbatim>\<open>kfree_heap\<close>: the contraction of the heap when the footer is at its
  end, and the insertion into the free list. \<^verbatim>\<open>new_length\<close> receives the status that
  \<^verbatim>\<open>heap_resize\<close> returns, converted to \<^verbatim>\<open>size_t\<close>.
\<close>

definition kfree_heap_contract ::
  "addr \<Rightarrow> addr \<Rightarrow> addr \<Rightarrow> bool \<Rightarrow> heap \<Rightarrow> memory \<Rightarrow> heap \<times> memory" where
  "kfree_heap_contract p_header p_footer right_header add_to_free_list heap m =
     (let (heap1, m1) =
            (if p_footer + sizeof_footer = end_address heap then
               (let len = end_address heap - start_address heap;
                    resized = heap_resize (p_header - start_address heap) heap;
                    new_length = (word_of_int (fst resized) :: addr);
                    heap' = snd resized
                in if 0 < header_size m p_header - (len - new_length) then
                     (let ma = set_header_size p_header
                                 (header_size m p_header - (len - new_length)) m;
                          p_footer' = p_header + header_size ma p_header - sizeof_footer;
                          mb = set_footer_magic p_footer' HEAP_MAGIC ma;
                          mc = set_footer_header p_footer' p_header mb
                      in (heap', mc))
                   else
                     (let i = find_header right_header (free_list heap')
                      in if i < List.length (free_list heap')
                         then (heap'\<lparr>free_list := sorted_array_remove i (free_list heap')\<rparr>, m)
                         else (heap', m)))
             else (heap, m))
      in if add_to_free_list
         then (heap1\<lparr>free_list := sorted_array_insert p_header (free_list heap1) m1\<rparr>, m1)
         else (heap1, m1))"

text \<open>
  \<^verbatim>\<open>kfree_heap\<close>. In the merge with the right neighbour the code assigns the address
  of the right footer, computed with the size of a pointer, to \<^verbatim>\<open>p_header\<close>.
\<close>

definition kfree_heap :: "addr \<Rightarrow> heap \<Rightarrow> memory \<Rightarrow> heap \<times> memory" where
  "kfree_heap p heap m =
     (if p = 0 then (heap, m)
      else
        (let p_header = p - sizeof_header;
             p_footer = p_header + header_size m p_header - sizeof_footer
         in if header_magic m p_header \<noteq> HEAP_MAGIC then (heap, m)
            else if footer_magic m p_footer \<noteq> HEAP_MAGIC then (heap, m)
            else
              (let m1 = set_header_allocated p_header 0 m;
                   left_footer = p_header - sizeof_footer;
                   (p_header1, add_to_free_list, m2) =
                     (if footer_magic m1 left_footer = HEAP_MAGIC \<and>
                         header_allocated m1 (footer_header m1 left_footer) = 0 then
                        (let current_size = header_size m1 p_header;
                             left_header = footer_header m1 left_footer;
                             ma = set_footer_header p_footer left_header m1;
                             mb = set_header_size left_header
                                    (header_size ma left_header + current_size) ma
                         in (left_header, False, mb))
                      else (p_header, True, m1));
                   right_header = p_footer + sizeof_footer
               in if header_magic m2 right_header = HEAP_MAGIC \<and>
                     header_allocated m2 right_header = 0 then
                    (let m3 = set_header_size p_header1
                                (header_size m2 p_header1 + header_size m2 right_header) m2;
                         right_footer = right_header + header_size m3 right_header
                                          - sizeof_pointer;
                         p_header2 = right_footer;
                         i = find_header right_header (free_list heap)
                     in if List.length (free_list heap) \<le> i then (heap, m3)
                        else kfree_heap_contract p_header2 p_footer right_header
                               add_to_free_list
                               (heap\<lparr>free_list := sorted_array_remove i (free_list heap)\<rparr>)
                               m3)
                  else kfree_heap_contract p_header1 p_footer right_header
                         add_to_free_list heap m2)))"

section \<open>The partition of the region into blocks\<close>

text \<open>
  The blocks from address \<open>a\<close> partition \<open>[a, e)\<close> when \<open>a\<close> is \<open>e\<close>, or a header with
  the magic value stands at \<open>a\<close>, its block is not empty and ends at or before \<open>e\<close>, and the
  blocks from its end partition the rest. Each block starts where the one before it
  ends: no gap and no overlap.
\<close>

function blocks_partition :: "memory \<Rightarrow> addr \<Rightarrow> addr \<Rightarrow> bool" where
  "blocks_partition m a e =
     (if a = e then True
      else if header_magic m a \<noteq> HEAP_MAGIC then False
      else if header_size m a = 0 then False
      else if unat e < unat a + unat (header_size m a) then False
      else blocks_partition m (a + header_size m a) e)"
  by pat_completeness auto
termination
proof (relation "measure (\<lambda>(m, a, e). unat e - unat a)")
  show "wf (measure (\<lambda>(m, a, e). unat e - unat a))" by simp
next
  fix m :: memory and a e :: addr
  assume "a \<noteq> e" and "\<not> header_magic m a \<noteq> HEAP_MAGIC"
    and pos: "header_size m a \<noteq> 0"
    and le: "\<not> unat e < unat a + unat (header_size m a)"
  have "unat e < 2 ^ 32" using unsigned_less [of e] by simp
  with le have "unat a + unat (header_size m a) < 2 ^ LENGTH(32)" by simp
  then have "unat (a + header_size m a) = unat a + unat (header_size m a)"
    by (simp only: unat_add_lem [THEN iffD1])
  moreover have "0 < unat (header_size m a)" using pos by (simp add: unat_gt_0)
  ultimately show "((m, a + header_size m a, e), (m, a, e))
      \<in> measure (\<lambda>(m, a, e). unat e - unat a)" using le by simp
qed

declare blocks_partition.simps [simp del]

section \<open>The chunk and the effective size\<close>





text \<open>
  The search in the words of the specification, on unbounded integers: the padding is
  what brings the payload start of the block at \<open>loc\<close> to the next page boundary (nothing
  when it is on one), the effective size is the block size minus the padding when page
  alignment is requested, and the search answers the first index whose effective size is
  at least the requested size (the number of entries before it, all too small), or \<open>-1\<close>
  when every entry is too small.
\<close>

definition page_padding :: "addr \<Rightarrow> nat" where
  "page_padding loc = (4096 - (unat loc + unat sizeof_header) mod 4096) mod 4096"

definition effective_size :: "memory \<Rightarrow> u8int \<Rightarrow> addr \<Rightarrow> int" where
  "effective_size m page_align loc =
     int (unat (header_size m loc)) - (if page_align \<noteq> 0 then int (page_padding loc) else 0)"

definition first_fit :: "addr \<Rightarrow> u8int \<Rightarrow> heap \<Rightarrow> memory \<Rightarrow> int" where
  "first_fit sz page_align heap m =
     (let n = length (takeWhile (\<lambda>loc. effective_size m page_align loc < int (unat sz))
                        (free_list heap))
      in if n < length (free_list heap) then int n else -1)"

section \<open>Example heaps\<close>

text \<open>A heap of one page and a heap of three pages, both starting at \<open>0x1000\<close> with the
  ceiling at \<open>0x4000\<close>.\<close>

definition one_page_heap :: heap where
  "one_page_heap = \<lparr>start_address = 0x1000, end_address = 0x2000, max_address = 0x4000,
     free_list = []\<rparr>"

definition three_page_heap :: heap where
  "three_page_heap = \<lparr>start_address = 0x1000, end_address = 0x4000, max_address = 0x4000,
     free_list = []\<rparr>"

text \<open>
  The heap that \<open>heap_create 0x100000 0x182000 0x200000\<close> makes in zeroed memory: one page
  of blocks from \<open>0x181000\<close>, below a ceiling at \<open>0x200000\<close>.
\<close>

definition fresh_heap :: heap where
  "fresh_heap = \<lparr>start_address = 0x181000, end_address = 0x182000, max_address = 0x200000,
     free_list = [0x181000]\<rparr>"

definition fresh_mem :: memory where
  "fresh_mem = (\<lambda>_. 0)
    (0x181000 := 0x123890AB, 0x181004 := 0x1000, 0x181008 := 0, 0x181FE0 := 0x123890AB,
     0x181FE4 := 0x181000)"

text \<open>The fresh heap after three allocations of 100 bytes: chunks at \<open>0x181000\<close>,
  \<open>0x181078\<close> and \<open>0x1810F0\<close>, each of 120 bytes, and the hole that remains.\<close>

definition alloc_a_heap :: heap where
  "alloc_a_heap = \<lparr>start_address = 0x181000, end_address = 0x182000, max_address = 0x200000,
     free_list = [0x181078]\<rparr>"

definition alloc_a_mem :: memory where
  "alloc_a_mem = (\<lambda>_. 0)
    (0x181FE0 := 0x123890AB, 0x181FE4 := 0x181000, 0x181000 := 0x123890AB,
     0x181008 := 1, 0x181004 := 120, 0x181070 := 0x123890AB, 0x181074 := 0x181000,
     0x181078 := 0x123890AB, 0x181080 := 0, 0x18107C := 0xF88, 0x181FF8 := 0x123890AB,
     0x181FFC := 0x181078)"

definition alloc_b_heap :: heap where
  "alloc_b_heap = \<lparr>start_address = 0x181000, end_address = 0x182000, max_address = 0x200000,
     free_list = [0x1810F0]\<rparr>"

definition alloc_b_mem :: memory where
  "alloc_b_mem = (\<lambda>_. 0)
    (0x181FE0 := 0x123890AB, 0x181FE4 := 0x181000, 0x181000 := 0x123890AB,
     0x181008 := 1, 0x181004 := 120, 0x181070 := 0x123890AB, 0x181074 := 0x181000,
     0x181078 := 0x123890AB, 0x181080 := 1, 0x18107C := 120, 0x1810E8 := 0x123890AB,
     0x1810EC := 0x181078, 0x1810F0 := 0x123890AB, 0x1810F8 := 0, 0x1810F4 := 0xF10,
     0x181FF8 := 0x123890AB, 0x181FFC := 0x1810F0)"

definition alloc_c_heap :: heap where
  "alloc_c_heap = \<lparr>start_address = 0x181000, end_address = 0x182000, max_address = 0x200000,
     free_list = [0x181168]\<rparr>"

definition alloc_c_mem :: memory where
  "alloc_c_mem = (\<lambda>_. 0)
    (0x181FE0 := 0x123890AB, 0x181FE4 := 0x181000, 0x181000 := 0x123890AB,
     0x181008 := 1, 0x181004 := 120, 0x181070 := 0x123890AB, 0x181074 := 0x181000,
     0x181078 := 0x123890AB, 0x181080 := 1, 0x18107C := 120, 0x1810E8 := 0x123890AB,
     0x1810EC := 0x181078, 0x1810F0 := 0x123890AB, 0x1810F8 := 1, 0x1810F4 := 120,
     0x181160 := 0x123890AB, 0x181164 := 0x1810F0, 0x181168 := 0x123890AB,
     0x181170 := 0, 0x18116C := 0xE98, 0x181FF8 := 0x123890AB, 0x181FFC := 0x181168)"

text \<open>After three allocations, the state with the second chunk freed, and the state with the
  third chunk freed instead.\<close>

definition freed_b_heap :: heap where
  "freed_b_heap = \<lparr>start_address = 0x181000, end_address = 0x182000, max_address = 0x200000,
     free_list = [0x181078, 0x181168]\<rparr>"

definition freed_b_mem :: memory where
  "freed_b_mem = (\<lambda>_. 0)
    (0x181FE0 := 0x123890AB, 0x181FE4 := 0x181000, 0x181000 := 0x123890AB,
     0x181008 := 1, 0x181004 := 120, 0x181070 := 0x123890AB, 0x181074 := 0x181000,
     0x181078 := 0x123890AB, 0x18107C := 120, 0x1810E8 := 0x123890AB,
     0x1810EC := 0x181078, 0x1810F0 := 0x123890AB, 0x1810F8 := 1, 0x1810F4 := 120,
     0x181160 := 0x123890AB, 0x181164 := 0x1810F0, 0x181168 := 0x123890AB,
     0x181170 := 0, 0x18116C := 0xE98, 0x181FF8 := 0x123890AB, 0x181FFC := 0x181168,
     0x181080 := 0)"

definition freed_c_heap :: heap where
  "freed_c_heap = \<lparr>start_address = 0x181000, end_address = 0x182000, max_address = 0x200000,
     free_list = [0x181FFC]\<rparr>"

definition freed_c_mem :: memory where
  "freed_c_mem = (\<lambda>_. 0)
    (0x181FE0 := 0x123890AB, 0x181FE4 := 0x181000, 0x181000 := 0x123890AB,
     0x181008 := 1, 0x181004 := 120, 0x181070 := 0x123890AB, 0x181074 := 0x181000,
     0x181078 := 0x123890AB, 0x181080 := 1, 0x18107C := 120, 0x1810E8 := 0x123890AB,
     0x1810EC := 0x181078, 0x1810F0 := 0x123890AB, 0x181160 := 0x123890AB,
     0x181164 := 0x1810F0, 0x181168 := 0x123890AB, 0x181170 := 0, 0x18116C := 0xE98,
     0x181FF8 := 0x123890AB, 0x181FFC := 0x181168, 0x1810F8 := 0, 0x1810F4 := 0xF10)"

text \<open>The fresh heap after one allocation that takes the whole page, and after a second
  allocation of 100 bytes, for which the heap grows by a page.\<close>

definition full_heap :: heap where
  "full_heap = \<lparr>start_address = 0x181000, end_address = 0x182000, max_address = 0x200000,
     free_list = []\<rparr>"

definition full_mem :: memory where
  "full_mem = (\<lambda>_. 0)
    (0x181FE0 := 0x123890AB, 0x181FE4 := 0x181000, 0x181000 := 0x123890AB,
     0x181008 := 1, 0x181004 := 0x1000, 0x181FF8 := 0x123890AB, 0x181FFC := 0x181000)"

definition grown_heap :: heap where
  "grown_heap = \<lparr>start_address = 0x181000, end_address = 0x183000, max_address = 0x200000,
     free_list = [0x182078]\<rparr>"

definition grown_mem :: memory where
  "grown_mem = (\<lambda>_. 0)
    (0x181FE0 := 0x123890AB, 0x181FE4 := 0x181000, 0x181000 := 0x123890AB,
     0x181008 := 1, 0x181004 := 0x1000, 0x181FF8 := 0x123890AB, 0x181FFC := 0x181000,
     0x182FD8 := 0x123890AB, 0x182FDC := 0x182000, 0x182000 := 0x123890AB,
     0x182008 := 1, 0x182004 := 120, 0x182070 := 0x123890AB, 0x182074 := 0x182000,
     0x182078 := 0x123890AB, 0x182080 := 0, 0x18207C := 0xF80, 0x182FF0 := 0x123890AB,
     0x182FF4 := 0x182078)"

text \<open>The heap that \<open>heap_create 0x100000 0x183000 0x200000\<close> makes in zeroed memory, two
  pages of blocks, and the same heap after a page-aligned allocation of 100 bytes.\<close>

definition two_page_heap :: heap where
  "two_page_heap = \<lparr>start_address = 0x181000, end_address = 0x183000, max_address = 0x200000,
     free_list = [0x181000]\<rparr>"

definition two_page_mem :: memory where
  "two_page_mem = (\<lambda>_. 0)
    (0x181000 := 0x123890AB, 0x181004 := 0x2000, 0x181008 := 0, 0x182FE0 := 0x123890AB,
     0x182FE4 := 0x181000)"





section \<open>Page rounding on words\<close>

lemma page_mask_eq: "(0xFFFFF000::32 word) = NOT (mask 12)"
  by (simp add: mask_eq_exp_minus_1)

lemma and_page_mask: "(x::32 word) AND 0xFFFFF000 = push_bit 12 (drop_bit 12 x)"
  unfolding page_mask_eq
  by (rule bit_word_eqI) (auto simp add: bit_simps)

lemma unat_align: "unat (align x) = (unat x div 4096) * 4096"
proof -
  have "unat (push_bit 12 (drop_bit 12 x)) = take_bit 32 (push_bit 12 (unat (drop_bit 12 x)))"
    by (simp add: unsigned_push_bit_eq)
  also have "\<dots> = take_bit 32 ((unat x div 4096) * 4096)"
    by (simp add: unat_drop_bit_eq push_bit_eq_mult drop_bit_eq_div unat_div)
  also have "\<dots> = (unat x div 4096) * 4096"
  proof -
    have "unat x < 2 ^ 32" using unsigned_less [of x] by simp
    then have "(unat x div 4096) * 4096 < 2 ^ 32" by simp
    then show ?thesis by (simp add: take_bit_nat_eq_self)
  qed
  finally show ?thesis by (simp add: align_def PAGE_MASK_def and_page_mask)
qed

lemma align_eq_iff: "(align x = x) = (unat x mod 4096 = 0)"
proof -
  have "(align x = x) = (unat (align x) = unat x)" by (simp add: word_unat_eq_iff)
  also have "\<dots> = (unat x mod 4096 = 0)" unfolding unat_align
    by (metis mod_eq_0_iff_dvd dvd_div_mult_self dvd_triv_right)
  finally show ?thesis .
qed

lemma page_round_up_aligned:
  assumes "n mod 4096 = 0" shows "page_round_up n = n"
proof -
  from assms obtain k where k: "n = 4096 * k" by (auto simp: mod_eq_0_iff_dvd)
  have "(4096 * k + 4095) div 4096 = k" by simp
  then show ?thesis by (simp add: page_round_up_def k)
qed

lemma page_round_up_unaligned:
  assumes "n mod 4096 \<noteq> 0" shows "page_round_up n = (n div 4096) * 4096 + 4096"
proof -
  define k r where "k = n div 4096" and "r = n mod 4096"
  have n: "n = 4096 * k + r" and r: "0 < r" "r < 4096"
    using assms by (simp_all add: k_def r_def)
  have "(4096 * k + r + 4095) = 4096 * (k + 1) + (r - 1)" using r by simp
  moreover have "(4096 * (k + 1) + (r - 1)) div 4096 = k + 1" using r by simp
  ultimately have "(n + 4095) div 4096 = k + 1" by (simp add: n)
  then show ?thesis by (simp add: page_round_up_def k_def)
qed

lemma page_round_up_ge: "n \<le> page_round_up n"
proof (cases "n mod 4096 = 0")
  case True
  then show ?thesis by (simp add: page_round_up_aligned)
next
  case False
  have "n = (n div 4096) * 4096 + n mod 4096" by simp
  moreover have "n mod 4096 < 4096" by simp
  ultimately have "n \<le> (n div 4096) * 4096 + 4096" by linarith
  then show ?thesis using False by (simp add: page_round_up_unaligned)
qed

text \<open>The first step of \<open>heap_resize\<close> is the rounding up of the specification, taken
  modulo \<open>2 ^ 32\<close>.\<close>

lemma page_round_eq:
  "(if align n \<noteq> n then align n + PAGE_SIZE else n) = of_nat (page_round_up (unat n))"
proof (cases "unat n mod 4096 = 0")
  case True
  then show ?thesis by (simp add: align_eq_iff page_round_up_aligned)
next
  case False
  have "(if align n \<noteq> n then align n + PAGE_SIZE else n) = align n + PAGE_SIZE"
    using False by (simp add: align_eq_iff)
  also have "\<dots> = of_nat (unat (align n)) + of_nat 4096"
    by (simp add: PAGE_SIZE_def)
  also have "\<dots> = of_nat (unat (align n) + 4096)"
    by (simp only: of_nat_add)
  also have "\<dots> = of_nat (page_round_up (unat n))"
    using page_round_up_unaligned [OF False] by (simp add: unat_align)
  finally show ?thesis .
qed

lemma push_bit_12_and_1: "push_bit 12 (y::32 word) AND 1 = 0"
  by (rule bit_word_eqI) (auto simp add: bit_simps)

lemma page_round_even:
  "(if align n \<noteq> n then align n + PAGE_SIZE else n) AND 1 = 0"
proof (cases "align n = n")
  case True
  then have "n = push_bit 12 (drop_bit 12 n)"
    by (simp add: align_def PAGE_MASK_def and_page_mask)
  then have "n AND 1 = 0" using push_bit_12_and_1 [of "drop_bit 12 n"] by simp
  with True show ?thesis by simp
next
  case False
  have "align n + PAGE_SIZE = push_bit 12 (drop_bit 12 n) + push_bit 12 1"
    by (simp add: align_def PAGE_MASK_def PAGE_SIZE_def and_page_mask)
  also have "\<dots> = push_bit 12 (drop_bit 12 n + 1)"
    by (simp only: push_bit_add)
  finally show ?thesis
    using False by (simp only: if_True push_bit_12_and_1 not_False_eq_True)
qed

section \<open>Properties of heap_resize\<close>

text \<open>
  C9: for every requested size and every heap, \<open>heap_resize\<close> leaves
  \<open>start_address\<close> and \<open>max_address\<close> as they were, whether it grows, shrinks, keeps the
  size or fails.
\<close>

theorem heap_resize_frame:
  "start_address (snd (heap_resize new_size heap)) = start_address heap \<and>
   max_address (snd (heap_resize new_size heap)) = max_address heap"
  by (simp add: heap_resize_def Let_def)

text \<open>
  C3, as the code has it: for a requested size strictly larger than the current size,
  when the start address plus the size rounded up to the next page boundary stays inside
  the 32-bit address space, \<open>heap_resize\<close> fails with \<open>-1\<close> and an unchanged heap if
  that sum exceeds \<open>max_address\<close>, and otherwise returns \<open>0\<close> with \<open>end_address\<close> set to
  that sum.
\<close>

theorem heap_resize_grow:
  assumes grow: "end_address heap - start_address heap < new_size"
      and fits: "unat (start_address heap) + page_round_up (unat new_size) < 2 ^ 32"
  shows "heap_resize new_size heap =
     (if unat (max_address heap) < unat (start_address heap) + page_round_up (unat new_size)
      then (-1, heap)
      else (0, heap\<lparr>end_address :=
                  start_address heap + of_nat (page_round_up (unat new_size))\<rparr>))"
proof -
  define r where "r = page_round_up (unat new_size)"
  define n1 :: addr
    where "n1 = (if align new_size \<noteq> new_size then align new_size + PAGE_SIZE else new_size)"
  have n1: "n1 = of_nat r" by (simp add: n1_def r_def page_round_eq)
  have r32: "r < 2 ^ 32" using fits by (simp add: r_def)
  have un1: "unat n1 = r" using r32 by (simp add: n1 unat_of_nat)
  have "unat new_size \<le> r" by (simp add: r_def page_round_up_ge)
  then have "new_size \<le> n1" by (simp add: word_le_nat_alt un1)
  with grow have big: "end_address heap - start_address heap < n1" by simp
  then have nless: "\<not> n1 < end_address heap - start_address heap" by simp
  have ev: "n1 AND 1 = 0" unfolding n1_def by (rule page_round_even)
  have "unat (start_address heap + n1) = unat (start_address heap) + r"
    using fits un1 by (simp add: unat_add_lem [THEN iffD1] r_def)
  then have cmp: "(max_address heap < start_address heap + n1) =
      (unat (max_address heap) < unat (start_address heap) + r)"
    by (simp add: word_less_nat_alt)
  show ?thesis
    unfolding heap_resize_def Let_def n1_def [symmetric]
    using big nless ev cmp by (simp add: n1 r_def)
qed

text \<open>The growth theorem at work: the one-page heap asked for \<open>0x1800\<close> bytes grows to
  two pages.\<close>

theorem heap_resize_grow_witness:
  "end_address one_page_heap - start_address one_page_heap < 0x1800 \<and>
   unat (start_address one_page_heap) + page_round_up (unat (0x1800 :: addr)) < 2 ^ 32 \<and>
   heap_resize 0x1800 one_page_heap = (0, one_page_heap\<lparr>end_address := 0x3000\<rparr>)"
  using heap_resize_grow [of one_page_heap "0x1800"]
  by (simp add: one_page_heap_def page_round_up_def)

text \<open>
  Where the rounded size leaves the address space the code does not fail: asked for
  \<open>0xFFFFF001\<close> bytes, more than its current \<open>0x1000\<close>, the one-page heap is not left
  unchanged. The rounding wraps to \<open>0\<close>, the call takes the contracting branch, returns
  \<open>0\<close> and moves \<open>end_address\<close> down to \<open>start_address\<close>, although the start address
  plus the rounded size exceeds \<open>max_address\<close>.
\<close>

theorem heap_resize_grow_wraps:
  "end_address one_page_heap - start_address one_page_heap < 0xFFFFF001 \<and>
   unat (max_address one_page_heap)
     < unat (start_address one_page_heap) + page_round_up (unat (0xFFFFF001 :: addr)) \<and>
   heap_resize 0xFFFFF001 one_page_heap = (0, one_page_heap\<lparr>end_address := 0x1000\<rparr>) \<and>
   end_address one_page_heap = 0x2000"
  by (simp add: heap_resize_def one_page_heap_def align_def PAGE_MASK_def PAGE_SIZE_def
      page_round_up_def)

text \<open>
  C8, as the code has it: for a requested size strictly smaller than the current size,
  \<open>heap_resize\<close> rounds the size up to a page boundary; when the rounded size does not
  exceed the current size and has bit 12 (\<open>0x1000\<close>) clear, it returns \<open>0\<close> with
  \<open>end_address\<close> set to \<open>start_address\<close> plus the rounded size.
\<close>

theorem heap_resize_shrink:
  assumes smaller: "new_size < end_address heap - start_address heap"
      and within: "page_round_up (unat new_size) \<le> unat (end_address heap - start_address heap)"
      and clear: "(of_nat (page_round_up (unat new_size)) :: addr) AND 0x1000 = 0"
  shows "heap_resize new_size heap =
      (0, heap\<lparr>end_address :=
                  start_address heap + of_nat (page_round_up (unat new_size))\<rparr>)"
proof -
  define r where "r = page_round_up (unat new_size)"
  define n1 :: addr
    where "n1 = (if align new_size \<noteq> new_size then align new_size + PAGE_SIZE else new_size)"
  have n1: "n1 = of_nat r" by (simp add: n1_def r_def page_round_eq)
  have un1: "unat n1 = r" using within by (simp add: n1 r_def le_unat_uoi)
  have le: "n1 \<le> end_address heap - start_address heap"
    using within by (simp add: word_le_nat_alt un1 r_def)
  then have ngt: "\<not> end_address heap - start_address heap < n1" by simp
  have c: "n1 AND 0x1000 = 0" using clear by (simp add: n1 r_def)
  show ?thesis
    unfolding heap_resize_def Let_def n1_def [symmetric]
    using ngt c by (simp add: n1 r_def)
qed

text \<open>The shrinking theorem at work: the three-page heap asked for \<open>0x1800\<close> bytes
  shrinks to two pages.\<close>

theorem heap_resize_shrink_witness:
  "0x1800 < end_address three_page_heap - start_address three_page_heap \<and>
   page_round_up (unat (0x1800 :: addr))
     \<le> unat (end_address three_page_heap - start_address three_page_heap) \<and>
   (of_nat (page_round_up (unat (0x1800 :: addr))) :: addr) AND 0x1000 = 0 \<and>
   heap_resize 0x1800 three_page_heap = (0, three_page_heap\<lparr>end_address := 0x3000\<rparr>)"
  using heap_resize_shrink [of "0x1800" three_page_heap]
  by (simp add: three_page_heap_def page_round_up_def)

text \<open>
  The size is not rounded down: asked for \<open>0x1800\<close> bytes, the three-page heap ends at
  \<open>start_address + 0x2000\<close>, not at \<open>start_address\<close> plus the size rounded down,
  \<open>0x1000\<close>.
\<close>

theorem heap_resize_shrink_rounds_up:
  "0x1800 < end_address three_page_heap - start_address three_page_heap \<and>
   end_address (snd (heap_resize 0x1800 three_page_heap)) = 0x3000 \<and>
   start_address three_page_heap + of_nat (page_round_down (unat (0x1800 :: addr))) = 0x2000"
  by (simp add: heap_resize_def three_page_heap_def align_def PAGE_MASK_def PAGE_SIZE_def
      page_round_down_def)

section \<open>Evaluation rules\<close>

lemmas heap_consts = PAGE_SIZE_def PAGE_MASK_def HEAP_MAGIC_def HEAP_FREE_LIST_SIZE_def
  sizeof_header_def sizeof_footer_def sizeof_pointer_def sizeof_sorted_array_def

lemmas field_defs = header_magic_def header_size_def header_allocated_def footer_magic_def
  footer_header_def set_header_magic_def set_header_size_def set_header_allocated_def
  set_footer_magic_def set_footer_header_def

lemmas kalloc_defs = find_smallest_hole_def kalloc_heap_found_def kalloc_heap_sizes_def
  kalloc_heap_align_def kalloc_heap_chunk_def kalloc_heap_extend_def add_hole_def
  heap_resize_def align_def sorted_array_lookup_def sorted_array_remove_def
  sorted_array_insert_def header_less_than_def Let_def

lemmas kfree_defs = kfree_heap_def kfree_heap_contract_def heap_resize_def align_def
  sorted_array_lookup_def sorted_array_remove_def sorted_array_insert_def
  header_less_than_def Let_def

section \<open>The loops\<close>

text \<open>The loop for the last header returns only when it is not entered.\<close>

lemma last_header_loop_Some:
  assumes "last_header_loop fl i idx v = Some r"
  shows "\<not> unat i < length fl \<and> r = (idx, v)"
  by (rule last_header_loop.raw_induct
        [where P = "\<lambda>fl i idx v r. \<not> unat i < length fl \<and> r = (idx, v)", OF _ assms])
     (auto simp: Let_def split: if_splits)

lemma last_header_loop_None:
  "unat i < length fl \<Longrightarrow> last_header_loop fl i idx v = None"
  using last_header_loop_Some [of fl i idx v] by (cases "last_header_loop fl i idx v") auto

lemma last_header_loop_Nil: "last_header_loop [] i idx v = Some (idx, v)"
  by (subst last_header_loop.simps) simp





section \<open>The free list through an allocation\<close>










section \<open>The allocations that return a pointer\<close>






section \<open>Page alignment of the chunk\<close>





section \<open>The header of the chunk\<close>
























section \<open>The example runs\<close>

lemma heap_create_fresh:
  "heap_create 0x100000 0x182000 0x200000 (\<lambda>_. 0) = (fresh_heap, fresh_mem)"
  by (simp add: heap_create_def add_hole_def Let_def heap_consts field_defs align_def
        sorted_array_insert_def fresh_heap_def fresh_mem_def)

lemma kalloc_alloc_a:
  "kalloc_heap 100 0 fresh_heap fresh_mem = Some (Some 0x18100C, alloc_a_heap, alloc_a_mem)"
  by (subst kalloc_heap.simps)
     (simp add: kalloc_defs heap_consts field_defs fresh_heap_def fresh_mem_def
        alloc_a_heap_def alloc_a_mem_def)

lemma kalloc_alloc_b:
  "kalloc_heap 100 0 alloc_a_heap alloc_a_mem = Some (Some 0x181084, alloc_b_heap, alloc_b_mem)"
  by (subst kalloc_heap.simps)
     (simp add: kalloc_defs heap_consts field_defs alloc_a_heap_def alloc_a_mem_def
        alloc_b_heap_def alloc_b_mem_def)

lemma kalloc_alloc_c:
  "kalloc_heap 100 0 alloc_b_heap alloc_b_mem = Some (Some 0x1810FC, alloc_c_heap, alloc_c_mem)"
  by (subst kalloc_heap.simps)
     (simp add: kalloc_defs heap_consts field_defs alloc_b_heap_def alloc_b_mem_def
        alloc_c_heap_def alloc_c_mem_def)

lemma kfree_freed_b:
  "kfree_heap 0x181084 alloc_c_heap alloc_c_mem = (freed_b_heap, freed_b_mem)"
  by (simp add: kfree_defs heap_consts field_defs alloc_c_heap_def alloc_c_mem_def
        freed_b_heap_def freed_b_mem_def)

lemma kfree_freed_c:
  "kfree_heap 0x1810FC alloc_c_heap alloc_c_mem = (freed_c_heap, freed_c_mem)"
  by (simp add: kfree_defs heap_consts field_defs alloc_c_heap_def alloc_c_mem_def
        freed_c_heap_def freed_c_mem_def)

lemma kalloc_full:
  "kalloc_heap 4076 0 fresh_heap fresh_mem = Some (Some 0x18100C, full_heap, full_mem)"
  by (subst kalloc_heap.simps)
     (simp add: kalloc_defs heap_consts field_defs fresh_heap_def fresh_mem_def
        full_heap_def full_mem_def)

lemma kalloc_grown:
  "kalloc_heap 100 0 full_heap full_mem = Some (Some 0x18200C, grown_heap, grown_mem)"
  apply (subst kalloc_heap.simps)
  apply (simp add: kalloc_defs heap_consts field_defs full_heap_def full_mem_def
      last_header_loop_Nil)
  apply (subst kalloc_heap.simps)
  apply (simp add: kalloc_defs heap_consts field_defs grown_heap_def grown_mem_def)
  done

lemma heap_create_two_page:
  "heap_create 0x100000 0x183000 0x200000 (\<lambda>_. 0) = (two_page_heap, two_page_mem)"
  by (simp add: heap_create_def add_hole_def Let_def heap_consts field_defs align_def
        sorted_array_insert_def
        two_page_heap_def two_page_mem_def)








lemma partition_fresh: "blocks_partition fresh_mem 0x181000 0x182000"
  by (simp add: blocks_partition.simps field_defs heap_consts fresh_mem_def)

lemma partition_full: "blocks_partition full_mem 0x181000 0x182000"
  by (simp add: blocks_partition.simps field_defs heap_consts full_mem_def)

lemma no_partition_grown: "\<not> blocks_partition grown_mem 0x181000 0x183000"
  by (simp add: blocks_partition.simps field_defs heap_consts grown_mem_def)

section \<open>The partition invariant\<close>

text \<open>
  C1, that after each operation the blocks partition \<open>[start_address, end_address)\<close>,
  fails on the code. The heap made by \<open>heap_create\<close> partitions its region, and still
  does after an allocation that takes the whole page. The next allocation of 100 bytes
  finds no hole; the heap grows by a page, within \<open>max_address\<close>, and the new hole is
  made eight bytes (one footer) short of the new end. After the call the blocks from
  \<open>start_address\<close> no longer partition \<open>[start_address, end_address)\<close>: they stop at
  \<open>0x182FF8\<close>, where no header stands.
\<close>

theorem growth_breaks_partition:
  "heap_create 0x100000 0x182000 0x200000 (\<lambda>_. 0) = (fresh_heap, fresh_mem) \<and>
   blocks_partition fresh_mem (start_address fresh_heap) (end_address fresh_heap) \<and>
   kalloc_heap 4076 0 fresh_heap fresh_mem = Some (Some 0x18100C, full_heap, full_mem) \<and>
   blocks_partition full_mem (start_address full_heap) (end_address full_heap) \<and>
   kalloc_heap 100 0 full_heap full_mem = Some (Some 0x18200C, grown_heap, grown_mem) \<and>
   end_address grown_heap \<le> max_address grown_heap \<and>
   \<not> blocks_partition grown_mem (start_address grown_heap) (end_address grown_heap)"
  using heap_create_fresh kalloc_full kalloc_grown partition_fresh partition_full
    no_partition_grown
  by (simp add: fresh_heap_def full_heap_def grown_heap_def)

section \<open>The search for a hole\<close>

text \<open>
  C2, that \<open>find_smallest_hole\<close> answers the first index whose effective size is at least
  the requested size and \<open>-1\<close> when there is none, fails on the code. With the second of
  three chunks freed, the free list holds the 120-byte block at \<open>0x181078\<close> and the hole
  at \<open>0x181168\<close>. A page-aligned payload in the first needs 3964 bytes of padding and
  one in the second 3724 of its 3736 bytes: no entry has an effective size of 30 bytes,
  and the search of the specification answers \<open>-1\<close>. \<open>find_smallest_hole\<close> answers index
  \<open>0\<close>: its \<^verbatim>\<open>hole_size\<close> is unsigned, and \<open>120 - 3964\<close> wraps to a large value.
\<close>

theorem find_smallest_hole_underflow:
  "heap_create 0x100000 0x182000 0x200000 (\<lambda>_. 0) = (fresh_heap, fresh_mem) \<and>
   kalloc_heap 100 0 fresh_heap fresh_mem = Some (Some 0x18100C, alloc_a_heap, alloc_a_mem) \<and>
   kalloc_heap 100 0 alloc_a_heap alloc_a_mem = Some (Some 0x181084, alloc_b_heap, alloc_b_mem) \<and>
   kalloc_heap 100 0 alloc_b_heap alloc_b_mem = Some (Some 0x1810FC, alloc_c_heap, alloc_c_mem) \<and>
   kfree_heap 0x181084 alloc_c_heap alloc_c_mem = (freed_b_heap, freed_b_mem) \<and>
   free_list freed_b_heap = [0x181078, 0x181168] \<and>
   effective_size freed_b_mem 1 0x181078 = 120 - 3964 \<and>
   effective_size freed_b_mem 1 0x181168 = 3736 - 3724 \<and>
   first_fit 30 1 freed_b_heap freed_b_mem = -1 \<and>
   find_smallest_hole 30 1 freed_b_heap freed_b_mem = 0"
  using heap_create_fresh kalloc_alloc_a kalloc_alloc_b kalloc_alloc_c kfree_freed_b
  by (simp add: freed_b_heap_def freed_b_mem_def effective_size_def page_padding_def
      first_fit_def find_smallest_hole_def field_defs heap_consts)

section \<open>Growing the heap in kalloc_heap\<close>

text \<open>
  C4, that a call which finds no hole and whose resize succeeds ends after one retry,
  fails on the code. On the fresh heap a request of 4080 bytes finds no hole, since
  the only hole has 4096 bytes and 4100 are needed, and the resize to three pages
  succeeds. The free list is not empty, so the loop for the last header, which never
  advances, does not end: the call does not return.
\<close>

theorem kalloc_heap_diverges:
  "heap_create 0x100000 0x182000 0x200000 (\<lambda>_. 0) = (fresh_heap, fresh_mem) \<and>
   free_list fresh_heap = [0x181000] \<and>
   find_smallest_hole (4080 + sizeof_header + sizeof_footer) 0 fresh_heap fresh_mem = -1 \<and>
   fst (heap_resize (end_address fresh_heap - start_address fresh_heap
          + (4080 + sizeof_header + sizeof_footer)) fresh_heap) = 0 \<and>
   kalloc_heap 4080 0 fresh_heap fresh_mem = None"
  using heap_create_fresh
  by (subst kalloc_heap.simps)
     (simp add: kalloc_defs heap_consts field_defs fresh_heap_def fresh_mem_def
        last_header_loop_None)

section \<open>The pointer that kalloc_heap returns\<close>




section \<open>The free-list entry of the hole that kalloc_heap takes\<close>



section \<open>Freeing\<close>

text \<open>
  C6, as the code has it: for every non-null pointer whose header magic, or whose
  footer magic at the place derived from the header's size, is not \<open>HEAP_MAGIC\<close>,
  \<open>kfree_heap\<close> returns with the heap (the free list and the three bounds) and the
  memory, hence all block metadata, as they were. \<open>kfree_heap\<close> is \<^verbatim>\<open>void\<close> and the two
  tests end in a bare \<^verbatim>\<open>return\<close>: the heap and the memory are all that a call leaves,
  and they are what the call with the null pointer leaves. Nothing tells the caller of
  the mismatch.
\<close>

theorem kfree_heap_bad_magic:
  assumes "p \<noteq> 0"
      and "header_magic m (p - sizeof_header) \<noteq> HEAP_MAGIC \<or>
           footer_magic m (p - sizeof_header + header_size m (p - sizeof_header) - sizeof_footer)
             \<noteq> HEAP_MAGIC"
  shows "kfree_heap p heap m = (heap, m) \<and> kfree_heap p heap m = kfree_heap 0 heap m"
proof -
  from assms have "kfree_heap p heap m = (heap, m)" by (auto simp add: kfree_heap_def Let_def)
  moreover have "kfree_heap 0 heap m = (heap, m)" by (simp add: kfree_heap_def)
  ultimately show ?thesis by simp
qed

text \<open>The theorem at work: the first chunk of the example, with the magic of its header
  overwritten.\<close>

theorem kfree_heap_bad_magic_witness:
  "(0x18100C :: addr) \<noteq> 0 \<and>
   header_magic (alloc_a_mem(0x181000 := 0)) (0x18100C - sizeof_header) \<noteq> HEAP_MAGIC \<and>
   kfree_heap 0x18100C alloc_a_heap (alloc_a_mem(0x181000 := 0))
     = (alloc_a_heap, alloc_a_mem(0x181000 := 0)) \<and>
   kfree_heap 0x18100C alloc_a_heap (alloc_a_mem(0x181000 := 0))
     = kfree_heap 0 alloc_a_heap (alloc_a_mem(0x181000 := 0))"
proof -
  have n: "(0x18100C :: addr) \<noteq> 0" by simp
  have h: "header_magic (alloc_a_mem(0x181000 := 0)) (0x18100C - sizeof_header) \<noteq> HEAP_MAGIC"
    by (simp add: header_magic_def sizeof_header_def HEAP_MAGIC_def)
  from kfree_heap_bad_magic [OF n disjI1 [OF h], where heap = alloc_a_heap]
  have "kfree_heap 0x18100C alloc_a_heap (alloc_a_mem(0x181000 := 0))
          = (alloc_a_heap, alloc_a_mem(0x181000 := 0))"
    and "kfree_heap 0x18100C alloc_a_heap (alloc_a_mem(0x181000 := 0))
          = kfree_heap 0 alloc_a_heap (alloc_a_mem(0x181000 := 0))"
    by (rule conjunct1, rule conjunct2)
  with n h show ?thesis by (intro conjI)
qed

text \<open>
  No error is reported. The first chunk of the example, of 120 bytes at \<open>0x181000\<close>,
  has its footer at \<open>0x181070\<close>; with the magic of that footer overwritten, the header
  still valid, freeing its payload \<open>0x18100C\<close> gives what freeing the null pointer gives,
  the heap and the memory as they were.
\<close>

theorem kfree_heap_silent:
  "(0x18100C :: addr) \<noteq> 0 \<and>
   header_magic (alloc_a_mem(0x181070 := 0)) (0x18100C - sizeof_header) = HEAP_MAGIC \<and>
   0x18100C - sizeof_header
     + header_size (alloc_a_mem(0x181070 := 0)) (0x18100C - sizeof_header) - sizeof_footer
     = 0x181070 \<and>
   footer_magic (alloc_a_mem(0x181070 := 0)) 0x181070 \<noteq> HEAP_MAGIC \<and>
   kfree_heap 0x18100C alloc_a_heap (alloc_a_mem(0x181070 := 0))
     = kfree_heap 0 alloc_a_heap (alloc_a_mem(0x181070 := 0)) \<and>
   kfree_heap 0 alloc_a_heap (alloc_a_mem(0x181070 := 0))
     = (alloc_a_heap, alloc_a_mem(0x181070 := 0))"
  by (simp add: kfree_heap_def Let_def alloc_a_mem_def field_defs heap_consts)

text \<open>
  C7, that freeing a block before a valid unallocated header adds the right block's size,
  rewrites the footer at the new end to point back to the freed header and removes the
  right block's entry, fails on the code in its second part. With three chunks allocated, the third chunk at \<open>0x1810F0\<close> is
  valid and the header that follows it, at \<open>0x181168\<close>, is valid and unallocated. Freeing
  the third chunk adds the size of the right block to its size and removes the entry of
  the right block from the free list. But the footer at the new end of the merged block,
  at \<open>0x181FF8\<close>, still points back to the header of the right block, \<open>0x181168\<close>, not to
  \<open>0x1810F0\<close>: the code assigns the address it computes for the right footer to
  \<^verbatim>\<open>p_header\<close>, and that address, \<open>0x181FFC\<close>, is what it inserts in the free list.
\<close>

theorem kfree_heap_right_merge:
  "heap_create 0x100000 0x182000 0x200000 (\<lambda>_. 0) = (fresh_heap, fresh_mem) \<and>
   kalloc_heap 100 0 fresh_heap fresh_mem = Some (Some 0x18100C, alloc_a_heap, alloc_a_mem) \<and>
   kalloc_heap 100 0 alloc_a_heap alloc_a_mem = Some (Some 0x181084, alloc_b_heap, alloc_b_mem) \<and>
   kalloc_heap 100 0 alloc_b_heap alloc_b_mem = Some (Some 0x1810FC, alloc_c_heap, alloc_c_mem) \<and>
   header_magic alloc_c_mem 0x1810F0 = HEAP_MAGIC \<and>
   footer_magic alloc_c_mem (0x1810F0 + header_size alloc_c_mem 0x1810F0 - sizeof_footer)
     = HEAP_MAGIC \<and>
   header_magic alloc_c_mem 0x181168 = HEAP_MAGIC \<and>
   header_allocated alloc_c_mem 0x181168 = 0 \<and>
   free_list alloc_c_heap = [0x181168] \<and>
   kfree_heap 0x1810FC alloc_c_heap alloc_c_mem = (freed_c_heap, freed_c_mem) \<and>
   header_size freed_c_mem 0x1810F0
     = header_size alloc_c_mem 0x1810F0 + header_size alloc_c_mem 0x181168 \<and>
   0x1810F0 + header_size freed_c_mem 0x1810F0 - sizeof_footer = 0x181FF8 \<and>
   footer_header freed_c_mem 0x181FF8 = 0x181168 \<and>
   free_list freed_c_heap = [0x181FFC]"
  using heap_create_fresh kalloc_alloc_a kalloc_alloc_b kalloc_alloc_c kfree_freed_c
  by (simp add: alloc_c_heap_def alloc_c_mem_def freed_c_heap_def freed_c_mem_def
      field_defs heap_consts)

end
